theory Spec2Isabelle
  imports Main
begin

section \<open>Presentation exchange: data model of \<open>pkg/doc/presexch/api.go\<close>\<close>

text \<open>
  Go strings and byte slices are \<open>string\<close>. A pointer field or an element of a
  slice of pointers is an \<open>option\<close>: \<open>None\<close> is Go's \<open>nil\<close>. The method receiver \<open>p\<close>,
  the argument \<open>vp\<close> of \<open>Match\<close> and the options passed to it are taken to be non-nil.
  A record field keeps its Go name, except where two structs share the name: then the
  field carries a prefix in one of them (\<open>pd_\<close> in PresentationDefinitions, \<open>mapping_\<close>
  in InputDescriptorMapping, \<open>field_\<close> in Field, \<open>vp_\<close> in verifiable.Presentation).
\<close>

type_synonym bytes = string

text \<open>
  A Go \<open>interface{}\<close> value as \<open>encoding/json\<close> produces it: \<open>nil\<close>, \<open>bool\<close>, a number,
  \<open>string\<close>, \<open>[]interface{}\<close> or \<open>map[string]interface{}\<close> (an association list, read
  with \<open>map_of\<close>). Numbers are never inspected by the code below.
\<close>

datatype untyped =
    UNil
  | UBool bool
  | UNumber int
  | UString string
  | USlice "untyped list"
  | UMap "(string \<times> untyped) list"

definition PresentationSubmissionJSONLDContext :: string where
  "PresentationSubmissionJSONLDContext = ''https://identity.foundation/presentation-exchange/submission/v1''"

definition PresentationSubmissionJSONLDType :: string where
  "PresentationSubmissionJSONLDType = ''PresentationSubmission''"

definition submissionProperty :: string where
  "submissionProperty = ''presentation_submission''"

definition descriptorMapProperty :: string where
  "descriptorMapProperty = ''descriptor_map''"

record Schema =
  URI :: "string list"
  Name :: string
  Purpose :: string

record Field =
  field_Path :: "string list"
  Filter :: "(string \<times> untyped) list"

record Constraints =
  Fields :: "Field option list"

record InputDescriptor =
  ID :: string
  Schema :: "Schema option"
  Constraints :: "Constraints option"

record PresentationDefinitions =
  pd_Name :: string
  pd_Purpose :: string
  InputDescriptors :: "InputDescriptor option list"

record InputDescriptorMapping =
  mapping_ID :: string
  mapping_Path :: string

record PresentationSubmission =
  DescriptorMap :: "InputDescriptorMapping option list"

text \<open>
  The types of package \<open>verifiable\<close> are declared outside the files at hand; the records
  hold the fields that \<open>api.go\<close> and \<open>credential_extension_switch_test.go\<close> read.
\<close>

record Credential =
  Context :: "string list"
  Types :: "string list"
  CustomFields :: "string \<rightharpoonup> untyped"

record Presentation =
  vp_Context :: "string list"
  vp_Type :: "string list"
  vp_CustomFields :: "string \<rightharpoonup> untyped"

typedecl DocumentLoader
typedecl PublicKeyFetcher

text \<open>
  \<open>verifiable.CredentialOpt\<close>: one constructor for each of the three options of
  package \<open>verifiable\<close> that \<open>api.go\<close> builds.
\<close>

datatype CredentialOpt =
    verifiable_WithJSONLDDocumentLoader DocumentLoader
  | verifiable_WithPublicKeyFetcher PublicKeyFetcher
  | verifiable_WithDisabledProofCheck

record MatchOptions =
  CredentialOptions :: "CredentialOpt list"

type_synonym MatchOption = "MatchOptions \<Rightarrow> MatchOptions"

definition WithJSONLDDocumentLoader :: "DocumentLoader \<Rightarrow> MatchOption" where
  "WithJSONLDDocumentLoader l =
     (\<lambda>m. m\<lparr>CredentialOptions := CredentialOptions m @ [verifiable_WithJSONLDDocumentLoader l]\<rparr>)"

definition WithPublicKeyFetcher :: "PublicKeyFetcher \<Rightarrow> MatchOption" where
  "WithPublicKeyFetcher fetcher =
     (\<lambda>m. m\<lparr>CredentialOptions := CredentialOptions m @ [verifiable_WithPublicKeyFetcher fetcher]\<rparr>)"

definition WithDisabledCredProofCheck :: MatchOption where
  "WithDisabledCredProofCheck =
     (\<lambda>m. m\<lparr>CredentialOptions := CredentialOptions m @ [verifiable_WithDisabledProofCheck]\<rparr>)"

subsection \<open>Errors and panics\<close>

text \<open>
  One constructor for each \<open>fmt.Errorf\<close> of \<open>api.go\<close>, with the values the message is
  formatted from; a \<open>%w\<close> argument is the wrapped error. \<open>External\<close> is an error value
  returned by code outside the package (its message).

  \<^item> \<open>MissingJSONLDContext\<close>: "input verifiable presentation must have json-ld context ..."
  \<^item> \<open>MissingJSONLDType\<close>: "input verifiable presentation must have json-ld type ..."
  \<^item> \<open>FailedToMarshalVP\<close>: "failed to marshal vp: %w"
  \<^item> \<open>FailedToUnmarshalVP\<close>: "failed to unmarshal vp: %w"
  \<^item> \<open>FailedToParseDescriptorMap\<close>: "failed to parse descriptor map: %w"
  \<^item> \<open>MissingOnPresentation\<close>: "missing '%s' on verifiable presentation"
  \<^item> \<open>FailedToMarshalDescriptorMap\<close>: "failed to marshal descriptor map: %w"
  \<^item> \<open>FailedToUnmarshalDescriptorMap\<close>: "failed to unmarshal descriptor map: %w"
  \<^item> \<open>UnmatchedDescriptorMapID\<close>: "an %s ID was found that did not match the `id`
    property of any input descriptor: %s"
  \<^item> \<open>FailedToSelectVC\<close>: "failed to select vc from submission: %w"
  \<^item> \<open>FailedToBuildEvaluator\<close>: "failed to build new json path evaluator: %w"
  \<^item> \<open>FailedToEvaluatePath\<close>: "failed to evaluate json path [%s]: %w"
  \<^item> \<open>FailedToMarshalCredential\<close>: "failed to marshal credential: %w"
  \<^item> \<open>FailedToParseCredential\<close>: "failed to parse credential: %w"
  \<^item> \<open>SchemaNotInContext\<close>: "input descriptor id [%s] requires schema uri [%+v] which
    is not in vc context [%+v]"
  \<^item> \<open>FailedSubmissionRequirements\<close>: "failed submission requirements: %w"
  \<^item> \<open>NoCredentialProvided\<close>: "no credential provided for input descriptor %s"
\<close>

datatype error =
    External string
  | MissingJSONLDContext string
  | MissingJSONLDType string
  | FailedToMarshalVP error
  | FailedToUnmarshalVP error
  | FailedToParseDescriptorMap error
  | MissingOnPresentation string
  | FailedToMarshalDescriptorMap error
  | FailedToUnmarshalDescriptorMap error
  | UnmatchedDescriptorMapID string string
  | FailedToSelectVC error
  | FailedToBuildEvaluator error
  | FailedToEvaluatePath string error
  | FailedToMarshalCredential error
  | FailedToParseCredential error
  | SchemaNotInContext string "string list" "string list"
  | FailedSubmissionRequirements error
  | NoCredentialProvided string

text \<open>
  A call either returns an error value or panics; the only panic of the code at hand is
  the runtime's nil pointer dereference.
\<close>

datatype failure =
    Returned error
  | NilPointerDereference

subsection \<open>Code outside the package\<close>

text \<open>
  \<open>Match\<close> calls into package \<open>verifiable\<close>, \<open>encoding/json\<close>, \<open>gval\<close> and \<open>jsonpath\<close>.
  Each call is a field of this record, so that every theorem below holds for whatever
  these functions compute, their failures included. \<open>Inl\<close> is the call's error;
  a call that returns no error returns a value (a non-nil \<open>*Credential\<close> for
  \<open>ParseCredential\<close>):

  \<^item> \<open>vp_MarshalJSON\<close>: \<open>vp.MarshalJSON()\<close>;
  \<^item> \<open>json_Unmarshal\<close>: \<open>json.Unmarshal\<close> into an \<open>interface{}\<close>;
  \<^item> \<open>json_Marshal\<close>: \<open>json.Marshal\<close> of an \<open>interface{}\<close> value;
  \<^item> \<open>json_Unmarshal_mappings\<close>: \<open>json.Unmarshal\<close> into a \<open>[]*InputDescriptorMapping\<close>
    (a JSON \<open>null\<close> element becomes a nil pointer);
  \<^item> \<open>NewEvaluable\<close>: \<open>builder.NewEvaluable\<close> of the \<open>gval\<close> language built with the
    \<open>jsonpath\<close> extension; the evaluable it returns is run on the document;
  \<^item> \<open>ParseCredential\<close>: \<open>verifiable.ParseCredential\<close>.
\<close>

record collaborators =
  vp_MarshalJSON :: "Presentation \<Rightarrow> string + bytes"
  json_Unmarshal :: "bytes \<Rightarrow> string + untyped"
  json_Marshal :: "untyped \<Rightarrow> string + bytes"
  json_Unmarshal_mappings :: "bytes \<Rightarrow> string + InputDescriptorMapping option list"
  NewEvaluable :: "string \<Rightarrow> string + (untyped \<Rightarrow> string + untyped)"
  ParseCredential :: "bytes \<Rightarrow> CredentialOpt list \<Rightarrow> string + Credential"

section \<open>The functions of \<open>api.go\<close>\<close>

fun stringsContain :: "string list \<Rightarrow> string \<Rightarrow> bool" where
  "stringsContain [] val = False"
| "stringsContain (x # s) val = (if x = val then True else stringsContain s val)"

text \<open>The inner loop of \<open>stringsIntersect\<close>, for one element \<open>a[i]\<close>.\<close>

fun stringsIntersect_inner :: "string \<Rightarrow> string list \<Rightarrow> bool" where
  "stringsIntersect_inner ai [] = False"
| "stringsIntersect_inner ai (bj # b) = (if ai = bj then True else stringsIntersect_inner ai b)"

fun stringsIntersect :: "string list \<Rightarrow> string list \<Rightarrow> bool" where
  "stringsIntersect [] b = False"
| "stringsIntersect (ai # a) b =
     (if stringsIntersect_inner ai b then True else stringsIntersect a b)"

text \<open>\<open>input[i].ID\<close> dereferences each element: a nil element panics.\<close>

fun descriptorIDs :: "InputDescriptor option list \<Rightarrow> failure + string list" where
  "descriptorIDs [] = Inr []"
| "descriptorIDs (None # input) = Inl NilPointerDereference"
| "descriptorIDs (Some d # input) =
     (case descriptorIDs input of
        Inl f \<Rightarrow> Inl f
      | Inr ids \<Rightarrow> Inr (ID d # ids))"

text \<open>
  The loop of \<open>inputDescriptor\<close> over \<open>p.InputDescriptors\<close>; \<open>Inr None\<close> is the
  \<open>return nil\<close> after the loop.
\<close>

fun inputDescriptor_loop :: "InputDescriptor option list \<Rightarrow> string \<Rightarrow> failure + InputDescriptor option" where
  "inputDescriptor_loop [] id' = Inr None"
| "inputDescriptor_loop (None # ds) id' = Inl NilPointerDereference"
| "inputDescriptor_loop (Some d # ds) id' =
     (if ID d = id' then Inr (Some d) else inputDescriptor_loop ds id')"

definition inputDescriptor :: "PresentationDefinitions \<Rightarrow> string \<Rightarrow> failure + InputDescriptor option" where
  "inputDescriptor p id' = inputDescriptor_loop (InputDescriptors p) id'"

definition checkJSONLDContextType :: "Presentation \<Rightarrow> error option" where
  "checkJSONLDContextType vp =
     (if \<not> stringsContain (vp_Context vp) PresentationSubmissionJSONLDContext
      then Some (MissingJSONLDContext PresentationSubmissionJSONLDContext)
      else if \<not> stringsContain (vp_Type vp) PresentationSubmissionJSONLDType
      then Some (MissingJSONLDType PresentationSubmissionJSONLDType)
      else None)"

text \<open>
  The two type assertions: a key that is absent from a Go map reads as \<open>nil\<close>, which
  fails the assertion like any value of another dynamic type.
\<close>

definition parseDescriptorMap :: "collaborators \<Rightarrow> Presentation \<Rightarrow> error + InputDescriptorMapping option list" where
  "parseDescriptorMap env vp =
     (case vp_CustomFields vp submissionProperty of
        Some (UMap submission) \<Rightarrow>
          (case map_of submission descriptorMapProperty of
             Some (USlice descriptorMap) \<Rightarrow>
               (case json_Marshal env (USlice descriptorMap) of
                  Inl err \<Rightarrow> Inl (FailedToMarshalDescriptorMap (External err))
                | Inr bits \<Rightarrow>
                    (case json_Unmarshal_mappings env bits of
                       Inl err \<Rightarrow> Inl (FailedToUnmarshalDescriptorMap (External err))
                     | Inr typedDescriptorMap \<Rightarrow> Inr typedDescriptorMap))
           | _ \<Rightarrow> Inl (MissingOnPresentation descriptorMapProperty))
      | _ \<Rightarrow> Inl (MissingOnPresentation submissionProperty))"

definition selectByPath :: "collaborators \<Rightarrow> untyped \<Rightarrow> string \<Rightarrow> MatchOptions \<Rightarrow> error + Credential" where
  "selectByPath env vp jsonPath options =
     (case NewEvaluable env jsonPath of
        Inl err \<Rightarrow> Inl (FailedToBuildEvaluator (External err))
      | Inr path \<Rightarrow>
          (case path vp of
             Inl err \<Rightarrow> Inl (FailedToEvaluatePath jsonPath (External err))
           | Inr cred \<Rightarrow>
               (case json_Marshal env cred of
                  Inl err \<Rightarrow> Inl (FailedToMarshalCredential (External err))
                | Inr credBits \<Rightarrow>
                    (case ParseCredential env credBits (CredentialOptions options) of
                       Inl err \<Rightarrow> Inl (FailedToParseCredential (External err))
                     | Inr vc \<Rightarrow> Inr vc))))"

text \<open>
  \<open>evalSubmissionRequirements\<close>: the loop over the descriptor ids, then the function.
  \<open>Inr ()\<close> is the \<open>return nil\<close>.
\<close>

fun evalSubmissionRequirements_loop :: "string list \<Rightarrow> (string \<rightharpoonup> Credential) \<Rightarrow> error option" where
  "evalSubmissionRequirements_loop [] matched = None"
| "evalSubmissionRequirements_loop (i # ids) matched =
     (case matched i of
        None \<Rightarrow> Some (NoCredentialProvided i)
      | Some _ \<Rightarrow> evalSubmissionRequirements_loop ids matched)"

definition evalSubmissionRequirements :: "PresentationDefinitions \<Rightarrow> (string \<rightharpoonup> Credential) \<Rightarrow> failure + unit" where
  "evalSubmissionRequirements p matched =
     (case descriptorIDs (InputDescriptors p) of
        Inl f \<Rightarrow> Inl f
      | Inr ids \<Rightarrow>
          (case evalSubmissionRequirements_loop ids matched of
             Some err \<Rightarrow> Inl (Returned err)
           | None \<Rightarrow> Inr ()))"

text \<open>
  The \<open>for i := range descriptorMap\<close> loop of \<open>Match\<close> (lines 141 to 169), with the
  variables it reads as arguments and \<open>result\<close> as the accumulator. \<open>mapping.ID\<close>
  dereferences the entry, \<open>inputDescriptor.Schema.URI\<close> dereferences the descriptor
  found and its \<open>Schema\<close> pointer.
\<close>

fun Match_loop ::
  "collaborators \<Rightarrow> PresentationDefinitions \<Rightarrow> string list \<Rightarrow> untyped \<Rightarrow> MatchOptions \<Rightarrow>
   InputDescriptorMapping option list \<Rightarrow> (string \<rightharpoonup> Credential) \<Rightarrow> failure + (string \<rightharpoonup> Credential)" where
  "Match_loop env p ids typelessVP opts [] result = Inr result"
| "Match_loop env p ids typelessVP opts (None # descriptorMap) result = Inl NilPointerDereference"
| "Match_loop env p ids typelessVP opts (Some mapping # descriptorMap) result =
     (if \<not> stringsContain ids (mapping_ID mapping)
      then Inl (Returned (UnmatchedDescriptorMapID descriptorMapProperty (mapping_ID mapping)))
      else
        (case selectByPath env typelessVP (mapping_Path mapping) opts of
           Inl selectErr \<Rightarrow> Inl (Returned (FailedToSelectVC selectErr))
         | Inr vc \<Rightarrow>
             (case inputDescriptor p (mapping_ID mapping) of
                Inl f \<Rightarrow> Inl f
              | Inr None \<Rightarrow> Inl NilPointerDereference
              | Inr (Some d) \<Rightarrow>
                  (case Schema d of
                     None \<Rightarrow> Inl NilPointerDereference
                   | Some s \<Rightarrow>
                       if \<not> stringsIntersect (Context vc) (URI s)
                       then Inl (Returned (SchemaNotInContext (ID d) (URI s) (Context vc)))
                       else Match_loop env p ids typelessVP opts descriptorMap
                              (result(mapping_ID mapping \<mapsto> vc))))))"

text \<open>
  The first loop of \<open>Match\<close> (lines 108 to 112): the options are applied in order
  to an empty \<open>MatchOptions\<close>.
\<close>

definition applyOptions :: "MatchOption list \<Rightarrow> MatchOptions" where
  "applyOptions options = foldl (\<lambda>opts opt. opt opts) \<lparr>CredentialOptions = []\<rparr> options"

text \<open>\<open>Match\<close>; \<open>Inr\<close> is the \<open>return result, nil\<close>.\<close>

definition Match ::
  "collaborators \<Rightarrow> PresentationDefinitions \<Rightarrow> Presentation \<Rightarrow> MatchOption list \<Rightarrow>
   failure + (string \<rightharpoonup> Credential)" where
  "Match env p vp options =
     (let opts = applyOptions options in
      case checkJSONLDContextType vp of
        Some err \<Rightarrow> Inl (Returned err)
      | None \<Rightarrow>
      (case vp_MarshalJSON env vp of
        Inl err \<Rightarrow> Inl (Returned (FailedToMarshalVP (External err)))
      | Inr vpBits \<Rightarrow>
      (case json_Unmarshal env vpBits of
        Inl err \<Rightarrow> Inl (Returned (FailedToUnmarshalVP (External err)))
      | Inr typelessVP \<Rightarrow>
      (case descriptorIDs (InputDescriptors p) of
        Inl f \<Rightarrow> Inl f
      | Inr ids \<Rightarrow>
      (case parseDescriptorMap env vp of
        Inl err \<Rightarrow> Inl (Returned (FailedToParseDescriptorMap err))
      | Inr descriptorMap \<Rightarrow>
      (case Match_loop env p ids typelessVP opts descriptorMap Map.empty of
        Inl f \<Rightarrow> Inl f
      | Inr result \<Rightarrow>
      (case evalSubmissionRequirements p result of
        Inl (Returned err) \<Rightarrow> Inl (Returned (FailedSubmissionRequirements err))
      | Inl NilPointerDereference \<Rightarrow> Inl NilPointerDereference
      | Inr _ \<Rightarrow> Inr result)))))))"

section \<open>Credential extensions: \<open>pkg/doc/verifiable\<close>\<close>

text \<open>
  The interface \<open>CustomCredentialProducer\<close> as the test file implements it: \<open>Accept\<close>
  and \<open>Apply\<close>. \<open>'a\<close> is the type of the values that \<open>Apply\<close> returns.
\<close>

record 'a CustomCredentialProducer =
  Accept :: "Credential \<Rightarrow> bool"
  Apply :: "Credential \<Rightarrow> bytes \<Rightarrow> string + 'a"

text \<open>
  The \<open>interface{}\<close> that \<open>CreateCustomCredential\<close> returns: the base \<open>*Credential\<close>
  or the value of a producer.
\<close>

datatype 'a TypedObject =
    BaseCredential Credential
  | CustomCredential 'a

text \<open>
  Modelled from the spec: the two ways \<open>Resolve\<close> fails (sections 4.1 and 7), each
  wrapping the error it was caused by. The function itself is not in the files at hand.
\<close>

datatype ResolveError =
    BaseCredentialBuildFailed string
  | ExtensionApplyFailed string

text \<open>
  Modelled from the spec: \<open>CreateCustomCredential\<close> (the spec's \<open>Resolve\<close>, section 4.1)
  is not in the files at hand, only its test is. Step 2 and 3 of the spec: the producers
  are tried in the order given; the first one whose \<open>Accept\<close> holds of the base
  credential has its \<open>Apply\<close> called, whose failure is the failure of the call and
  whose value is the result; when none accepts, the result is the base credential.
\<close>

fun CreateCustomCredential_loop ::
  "'a CustomCredentialProducer list \<Rightarrow> Credential \<Rightarrow> bytes \<Rightarrow> ResolveError + 'a TypedObject" where
  "CreateCustomCredential_loop [] vcBase vcData = Inr (BaseCredential vcBase)"
| "CreateCustomCredential_loop (pr # producers) vcBase vcData =
     (if Accept pr vcBase
      then (case Apply pr vcBase vcData of
              Inl err \<Rightarrow> Inl (ExtensionApplyFailed err)
            | Inr customCred \<Rightarrow> Inr (CustomCredential customCred))
      else CreateCustomCredential_loop producers vcBase vcData)"

text \<open>
  Modelled from the spec: step 1 of section 4.1. The credential parser is outside the
  core and is the argument \<open>parse\<close>; its failure is reported as
  \<open>BaseCredentialBuildFailed\<close>, wrapping the parser's error.
\<close>

definition CreateCustomCredential ::
  "(bytes \<Rightarrow> string + Credential) \<Rightarrow> bytes \<Rightarrow> 'a CustomCredentialProducer list \<Rightarrow>
   ResolveError + 'a TypedObject" where
  "CreateCustomCredential parse vcData producers =
     (case parse vcData of
        Inl err \<Rightarrow> Inl (BaseCredentialBuildFailed err)
      | Inr vcBase \<Rightarrow> CreateCustomCredential_loop producers vcBase vcData)"

subsection \<open>The producers of \<open>credential_extension_switch_test.go\<close>\<close>

fun hasType :: "string list \<Rightarrow> string \<Rightarrow> bool" where
  "hasType [] targetType = False"
| "hasType (thatType # allTypes) targetType =
     (if thatType = targetType then True else hasType allTypes targetType)"

record Subject1 =
  s1_ID :: string
  s1_CustomSubjectField :: string

record Cred1 =
  c1_Base :: Credential
  c1_Subject :: Subject1
  c1_CustomField :: string

record Subject2 =
  s2_ID :: string
  s2_CustomSubjectField :: string

record Cred2 =
  c2_Base :: Credential
  c2_Subject :: Subject2
  c2_CustomField :: string

datatype TestCredential =
    IsCred1 Cred1
  | IsCred2 Cred2

text \<open>
  \<open>Cred1\<close> is its own producer and \<open>Cred2Producer\<close> produces a \<open>Cred2\<close>. Both call
  \<open>json.Unmarshal\<close> on the raw bytes (the argument \<open>unmarshal\<close>), then set \<open>Base\<close>.
\<close>

definition Cred1_producer :: "(bytes \<Rightarrow> string + Cred1) \<Rightarrow> TestCredential CustomCredentialProducer" where
  "Cred1_producer unmarshal =
     \<lparr>Accept = (\<lambda>vc. hasType (Types vc) ''CredType1''),
      Apply = (\<lambda>vc dataJSON.
        case unmarshal dataJSON of
          Inl err \<Rightarrow> Inl err
        | Inr c1 \<Rightarrow> Inr (IsCred1 (c1\<lparr>c1_Base := vc\<rparr>)))\<rparr>"

definition Cred2Producer :: "(bytes \<Rightarrow> string + Cred2) \<Rightarrow> TestCredential CustomCredentialProducer" where
  "Cred2Producer unmarshal =
     \<lparr>Accept = (\<lambda>vc. hasType (Types vc) ''CredType2''),
      Apply = (\<lambda>vc dataJSON.
        case unmarshal dataJSON of
          Inl err \<Rightarrow> Inl err
        | Inr c2 \<Rightarrow> Inr (IsCred2 (c2\<lparr>c2_Base := vc\<rparr>)))\<rparr>"

definition FailingCredentialProducer :: "TestCredential CustomCredentialProducer" where
  "FailingCredentialProducer =
     \<lparr>Accept = (\<lambda>vc. True),
      Apply = (\<lambda>vc dataJSON. Inl ''failed to apply credential extension'')\<rparr>"

section \<open>Example inputs\<close>

text \<open>
  Concrete inputs on which the theorems below are instantiated: credentials, a
  presentation that embeds a descriptor map, a definition with two input descriptors,
  and stand-ins for the code outside the package that answer from a table. The
  argument of \<open>example_collaborators\<close> is the typed descriptor map that decoding the
  presentation's \<open>descriptor_map\<close> yields; the document has two embedded credentials,
  written \<open>A\<close> and \<open>B\<close>.
\<close>

definition example_credential :: "string \<Rightarrow> string \<Rightarrow> Credential" where
  "example_credential schemaURI credType =
     \<lparr>Context = [''https://www.w3.org/2018/credentials/v1'', schemaURI],
      Types = [''VerifiableCredential'', credType],
      CustomFields = Map.empty\<rparr>"

definition example_document :: untyped where
  "example_document =
     UMap [(''verifiableCredential'', USlice [UString ''A'', UString ''B''])]"

definition example_evaluable :: "nat \<Rightarrow> untyped \<Rightarrow> string + untyped" where
  "example_evaluable i doc =
     (case doc of
        UMap entries \<Rightarrow>
          (case map_of entries ''verifiableCredential'' of
             Some (USlice vcs) \<Rightarrow> if i < length vcs then Inr (vcs ! i) else Inl ''index out of range''
           | _ \<Rightarrow> Inl ''unknown key verifiableCredential'')
      | _ \<Rightarrow> Inl ''unknown key verifiableCredential'')"

definition example_collaborators :: "InputDescriptorMapping option list \<Rightarrow> collaborators" where
  "example_collaborators typedDescriptorMap =
     \<lparr>vp_MarshalJSON = (\<lambda>vp. Inr ''VP''),
      json_Unmarshal = (\<lambda>bits. Inr example_document),
      json_Marshal = (\<lambda>v. case v of UString s \<Rightarrow> Inr s | _ \<Rightarrow> Inr ''MAP''),
      json_Unmarshal_mappings = (\<lambda>bits. Inr typedDescriptorMap),
      NewEvaluable = (\<lambda>jsonPath.
        if jsonPath = ''$.verifiableCredential[0]'' then Inr (example_evaluable 0)
        else if jsonPath = ''$.verifiableCredential[1]'' then Inr (example_evaluable 1)
        else Inl ''parsing error''),
      ParseCredential = (\<lambda>bits opts.
        if bits = ''A'' then Inr (example_credential ''https://example.org/schema/a'' ''CredType1'')
        else if bits = ''B'' then Inr (example_credential ''https://example.org/schema/b'' ''CredType2'')
        else Inl ''credential type of unknown structure'')\<rparr>"

definition example_mapping_object :: "string \<Rightarrow> string \<Rightarrow> untyped" where
  "example_mapping_object i path = UMap [(''id'', UString i), (''path'', UString path)]"

definition example_presentation :: "untyped list \<Rightarrow> Presentation" where
  "example_presentation descriptorMap =
     \<lparr>vp_Context = [''https://www.w3.org/2018/credentials/v1'', PresentationSubmissionJSONLDContext],
      vp_Type = [''VerifiablePresentation'', PresentationSubmissionJSONLDType],
      vp_CustomFields = [submissionProperty \<mapsto> UMap [(descriptorMapProperty, USlice descriptorMap)]]\<rparr>"

definition example_descriptor :: "string \<Rightarrow> string \<Rightarrow> InputDescriptor" where
  "example_descriptor i schemaURI =
     \<lparr>ID = i, Schema = Some \<lparr>URI = [schemaURI], Name = '''', Purpose = ''''\<rparr>, Constraints = None\<rparr>"

definition example_definitions :: PresentationDefinitions where
  "example_definitions =
     \<lparr>pd_Name = ''example'', pd_Purpose = ''example'',
      InputDescriptors =
        [Some (example_descriptor ''d1'' ''https://example.org/schema/a''),
         Some (example_descriptor ''d2'' ''https://example.org/schema/b'')]\<rparr>"

definition example_marshal_failure :: "Presentation \<Rightarrow> string + bytes" where
  "example_marshal_failure vp = Inl ''json: unsupported type''"

definition example_parse :: "bytes \<Rightarrow> string + Credential" where
  "example_parse bits =
     (if bits = ''A'' then Inr (example_credential ''https://example.org/schema/a'' ''CredType1'')
      else if bits = ''B'' then Inr (example_credential ''https://example.org/schema/b'' ''CredType2'')
      else if bits = ''C'' then Inr (example_credential ''https://example.org/schema/c'' ''UniversityDegreeCredential'')
      else Inl ''credential type of unknown structure'')"

definition example_unmarshal_Cred1 :: "bytes \<Rightarrow> string + Cred1" where
  "example_unmarshal_Cred1 dataJSON =
     Inr \<lparr>c1_Base = \<lparr>Context = [], Types = [], CustomFields = Map.empty\<rparr>,
          c1_Subject = \<lparr>s1_ID = ''did:example:ebfeb1f712ebc6f1c276e12ec21'',
                        s1_CustomSubjectField = ''custom subject 1''\<rparr>,
          c1_CustomField = ''custom field 1''\<rparr>"

definition example_unmarshal_Cred2 :: "bytes \<Rightarrow> string + Cred2" where
  "example_unmarshal_Cred2 dataJSON =
     Inr \<lparr>c2_Base = \<lparr>Context = [], Types = [], CustomFields = Map.empty\<rparr>,
          c2_Subject = \<lparr>s2_ID = ''did:example:ebfeb1f712ebc6f1c276e12ec21'',
                        s2_CustomSubjectField = ''custom subject 2''\<rparr>,
          c2_CustomField = ''custom field 2''\<rparr>"

section \<open>Properties of the helper functions\<close>

lemmas example_defs = example_credential_def example_document_def example_evaluable_def
  example_collaborators_def example_mapping_object_def example_presentation_def
  example_descriptor_def example_definitions_def
  Match_def applyOptions_def checkJSONLDContextType_def parseDescriptorMap_def selectByPath_def
  inputDescriptor_def evalSubmissionRequirements_def
  PresentationSubmissionJSONLDContext_def PresentationSubmissionJSONLDType_def
  submissionProperty_def descriptorMapProperty_def

lemmas example_producer_defs = example_parse_def example_unmarshal_Cred1_def example_unmarshal_Cred2_def
  example_credential_def Cred1_producer_def Cred2Producer_def FailingCredentialProducer_def

lemma stringsContain_iff: "stringsContain s v \<longleftrightarrow> v \<in> set s"
  by (induction s) auto

lemma stringsIntersect_inner_iff: "stringsIntersect_inner x b \<longleftrightarrow> x \<in> set b"
  by (induction b) auto

lemma stringsIntersect_iff: "stringsIntersect a b \<longleftrightarrow> set a \<inter> set b \<noteq> {}"
  by (induction a) (auto simp: stringsIntersect_inner_iff)

lemma checkJSONLDContextType_None:
  "checkJSONLDContextType vp = None \<longleftrightarrow>
     PresentationSubmissionJSONLDContext \<in> set (vp_Context vp) \<and>
     PresentationSubmissionJSONLDType \<in> set (vp_Type vp)"
  by (simp add: checkJSONLDContextType_def stringsContain_iff)

lemma descriptorIDs_Inr:
  "descriptorIDs input = Inr ids \<Longrightarrow> None \<notin> set input \<and> ids = map (\<lambda>d. ID (the d)) input"
  by (induction input arbitrary: ids rule: descriptorIDs.induct) (auto split: sum.splits)

lemma descriptorIDs_set:
  assumes "descriptorIDs input = Inr ids"
  shows "set ids = {ID d |d. Some d \<in> set input}"
proof -
  from descriptorIDs_Inr [OF assms] have n: "None \<notin> set input" and i: "ids = map (\<lambda>d. ID (the d)) input"
    by simp_all
  show ?thesis
  proof (intro set_eqI iffI)
    fix k assume "k \<in> set ids"
    then obtain x where x: "x \<in> set input" "k = ID (the x)" using i by auto
    with n obtain d where "x = Some d" by (cases x) auto
    with x show "k \<in> {ID d |d. Some d \<in> set input}" by auto
  next
    fix k assume "k \<in> {ID d |d. Some d \<in> set input}"
    then obtain d where "Some d \<in> set input" "k = ID d" by auto
    then show "k \<in> set ids" using i by force
  qed
qed

lemma descriptorIDs_mem:
  "descriptorIDs input = Inr ids \<Longrightarrow> k \<in> set ids \<longleftrightarrow> (\<exists>d. Some d \<in> set input \<and> ID d = k)"
  by (auto simp: descriptorIDs_set)

lemma descriptorIDs_total:
  "None \<notin> set input \<Longrightarrow> descriptorIDs input = Inr (map (\<lambda>d. ID (the d)) input)"
  by (induction input rule: descriptorIDs.induct) auto

lemma inputDescriptor_loop_Some:
  "inputDescriptor_loop ds k = Inr (Some d) \<Longrightarrow> Some d \<in> set ds \<and> ID d = k"
  by (induction ds k rule: inputDescriptor_loop.induct) (auto split: if_splits)

lemma evalSubmissionRequirements_loop_None:
  "evalSubmissionRequirements_loop ids matched = None \<longleftrightarrow> set ids \<subseteq> dom matched"
  by (induction ids) (auto split: option.splits)

lemma evalSubmissionRequirements_loop_first:
  "set pre \<subseteq> dom matched \<Longrightarrow> matched k = None \<Longrightarrow>
   evalSubmissionRequirements_loop (pre @ k # post) matched = Some (NoCredentialProvided k)"
  by (induction pre) (auto split: option.splits)

lemma CreateCustomCredential_loop_skip:
  "\<forall>q \<in> set rejecting. \<not> Accept q vcBase \<Longrightarrow>
   CreateCustomCredential_loop (rejecting @ rest) vcBase vcData =
   CreateCustomCredential_loop rest vcBase vcData"
  by (induction rejecting) auto

section \<open>The loop of \<open>Match\<close>\<close>

text \<open>
  The loop over a concatenation runs the loop over the first part, then over the
  second with the map the first part built. A run that ends with a map has passed
  every check for every entry.
\<close>

lemma Match_loop_append:
  "Match_loop env p ids t opts (xs @ ys) result =
     (case Match_loop env p ids t opts xs result of
        Inl f \<Rightarrow> Inl f
      | Inr r \<Rightarrow> Match_loop env p ids t opts ys r)"
proof (induction xs arbitrary: result)
  case Nil
  show ?case by simp
next
  case (Cons x xs)
  show ?case
  proof (cases x)
    case None
    then show ?thesis by simp
  next
    case (Some mapping)
    show ?thesis
      unfolding Some
      by (simp add: Cons.IH del: fun_upd_apply split: sum.splits option.splits)
  qed
qed

lemma Match_loop_Cons_Inr:
  assumes "Match_loop env p ids t opts (x # dm) result = Inr r"
  obtains mapping vc d s where
    "x = Some mapping"
    "stringsContain ids (mapping_ID mapping)"
    "selectByPath env t (mapping_Path mapping) opts = Inr vc"
    "inputDescriptor p (mapping_ID mapping) = Inr (Some d)"
    "Schema d = Some s"
    "stringsIntersect (Context vc) (URI s)"
    "Match_loop env p ids t opts dm (result(mapping_ID mapping \<mapsto> vc)) = Inr r"
proof (cases x)
  case None
  with assms show ?thesis by simp
next
  case (Some mapping)
  with assms that show ?thesis
    by (auto split: if_splits sum.splits option.splits)
qed

lemma Match_loop_dom:
  "Match_loop env p ids t opts dm result = Inr r \<Longrightarrow>
   dom r = dom result \<union> {mapping_ID m |m. Some m \<in> set dm} \<and>
   {mapping_ID m |m. Some m \<in> set dm} \<subseteq> set ids"
proof (induction dm arbitrary: result)
  case Nil
  then show ?case by simp
next
  case (Cons x dm)
  from Cons.prems obtain mapping vc where
    x: "x = Some mapping"
    and c: "stringsContain ids (mapping_ID mapping)"
    and rest: "Match_loop env p ids t opts dm (result(mapping_ID mapping \<mapsto> vc)) = Inr r"
    by (rule Match_loop_Cons_Inr)
  have upd: "dom (result(mapping_ID mapping \<mapsto> vc)) = insert (mapping_ID mapping) (dom result)"
    by simp
  have d: "dom r = insert (mapping_ID mapping) (dom result) \<union> {mapping_ID m |m. Some m \<in> set dm}"
    and sub: "{mapping_ID m |m. Some m \<in> set dm} \<subseteq> set ids"
    using Cons.IH [OF rest] unfolding upd by blast+
  have e: "{mapping_ID m |m. Some m \<in> set (x # dm)} =
           insert (mapping_ID mapping) {mapping_ID m |m. Some m \<in> set dm}"
    using x by auto
  from c have "mapping_ID mapping \<in> set ids" by (simp add: stringsContain_iff)
  with sub show ?case unfolding d e by blast
qed


lemma Match_loop_schema:
  "Match_loop env p ids t opts dm result = Inr r \<Longrightarrow> r k = Some vc \<Longrightarrow>
   result k = Some vc \<or>
   (\<exists>d s. inputDescriptor p k = Inr (Some d) \<and> Schema d = Some s \<and>
          stringsIntersect (Context vc) (URI s))"
proof (induction dm arbitrary: result)
  case Nil
  then show ?case by simp
next
  case (Cons x dm)
  from Cons.prems(1) obtain mapping vc' d s where
    x: "x = Some mapping"
    and idd: "inputDescriptor p (mapping_ID mapping) = Inr (Some d)"
    and sch: "Schema d = Some s"
    and int: "stringsIntersect (Context vc') (URI s)"
    and rest: "Match_loop env p ids t opts dm (result(mapping_ID mapping \<mapsto> vc')) = Inr r"
    by (rule Match_loop_Cons_Inr)
  from Cons.IH [OF rest Cons.prems(2)]
  have "(result(mapping_ID mapping \<mapsto> vc')) k = Some vc \<or>
        (\<exists>d s. inputDescriptor p k = Inr (Some d) \<and> Schema d = Some s \<and>
          stringsIntersect (Context vc) (URI s))" .
  then show ?case using idd sch int by (auto split: if_splits)
qed

lemma Match_unfold:
  assumes "checkJSONLDContextType vp = None"
    and "vp_MarshalJSON env vp = Inr vpBits"
    and "json_Unmarshal env vpBits = Inr typelessVP"
    and "descriptorIDs (InputDescriptors p) = Inr ids"
    and "parseDescriptorMap env vp = Inr descriptorMap"
  shows "Match env p vp options =
     (case Match_loop env p ids typelessVP (applyOptions options) descriptorMap Map.empty of
        Inl f \<Rightarrow> Inl f
      | Inr result \<Rightarrow>
          (case evalSubmissionRequirements_loop ids result of
             Some err \<Rightarrow> Inl (Returned (FailedSubmissionRequirements err))
           | None \<Rightarrow> Inr result))"
  using assms
  by (simp add: Match_def evalSubmissionRequirements_def split: sum.splits option.splits)

lemma Match_Inr_elim:
  assumes "Match env p vp options = Inr result"
  obtains vpBits typelessVP ids descriptorMap where
    "checkJSONLDContextType vp = None"
    "vp_MarshalJSON env vp = Inr vpBits"
    "json_Unmarshal env vpBits = Inr typelessVP"
    "descriptorIDs (InputDescriptors p) = Inr ids"
    "parseDescriptorMap env vp = Inr descriptorMap"
    "Match_loop env p ids typelessVP (applyOptions options) descriptorMap Map.empty = Inr result"
    "evalSubmissionRequirements_loop ids result = None"
  using assms
  by (auto simp: Match_def evalSubmissionRequirements_def Let_def
           split: sum.splits option.splits failure.splits)

lemma Match_fails_at_entry:
  assumes "checkJSONLDContextType vp = None"
    and "vp_MarshalJSON env vp = Inr vpBits"
    and "json_Unmarshal env vpBits = Inr typelessVP"
    and "descriptorIDs (InputDescriptors p) = Inr ids"
    and "parseDescriptorMap env vp = Inr (processed @ entry # later)"
    and "Match_loop env p ids typelessVP (applyOptions options) processed Map.empty = Inr result0"
    and "Match_loop env p ids typelessVP (applyOptions options) (entry # later) result0 = Inl f"
  shows "Match env p vp options = Inl f"
  using assms(6,7)
  by (simp add: Match_unfold [OF assms(1-5)] Match_loop_append)

lemma example_Match_succeeds:
  "Match
     (example_collaborators
        [Some \<lparr>mapping_ID = ''d1'', mapping_Path = ''$.verifiableCredential[0]''\<rparr>,
         Some \<lparr>mapping_ID = ''d2'', mapping_Path = ''$.verifiableCredential[1]''\<rparr>])
     example_definitions
     (example_presentation
        [example_mapping_object ''d1'' ''$.verifiableCredential[0]'',
         example_mapping_object ''d2'' ''$.verifiableCredential[1]''])
     [] =
   Inr [''d1'' \<mapsto> example_credential ''https://example.org/schema/a'' ''CredType1'',
        ''d2'' \<mapsto> example_credential ''https://example.org/schema/b'' ''CredType2'']"
  by (simp add: example_defs)

section \<open>The claims\<close>

text \<open>
  Claim C1 (coverage). If \<open>Match\<close> returns a result mapping without error, every id of an
  input descriptor of the definition is a key of the mapping. If the loop over the
  descriptor map has ended with the mapping \<open>matched\<close> and some descriptor id is not a
  key of it, \<open>Match\<close> fails with "failed submission requirements: no credential
  provided for input descriptor ..." (the spec's UnsatisfiedDescriptor), and the id
  it names is the first one, in the order of the descriptors, that is missing.
\<close>

theorem Match_coverage:
  "(Match env p vp options = Inr result \<longrightarrow>
      (\<forall>d. Some d \<in> set (InputDescriptors p) \<longrightarrow> ID d \<in> dom result)) \<and>
   (checkJSONLDContextType vp = None \<and>
    vp_MarshalJSON env vp = Inr vpBits \<and>
    json_Unmarshal env vpBits = Inr typelessVP \<and>
    descriptorIDs (InputDescriptors p) = Inr (present @ missing # others) \<and>
    parseDescriptorMap env vp = Inr descriptorMap \<and>
    Match_loop env p (present @ missing # others) typelessVP (applyOptions options)
      descriptorMap Map.empty = Inr matched \<and>
    set present \<subseteq> dom matched \<and> missing \<notin> dom matched \<longrightarrow>
      Match env p vp options =
        Inl (Returned (FailedSubmissionRequirements (NoCredentialProvided missing))))"
proof (intro conjI impI)
  assume ok: "Match env p vp options = Inr result"
  then obtain ids where ids: "descriptorIDs (InputDescriptors p) = Inr ids"
    and cov: "evalSubmissionRequirements_loop ids result = None"
    by (rule Match_Inr_elim)
  from cov have "set ids \<subseteq> dom result"
    by (simp add: evalSubmissionRequirements_loop_None)
  then show "\<forall>d. Some d \<in> set (InputDescriptors p) \<longrightarrow> ID d \<in> dom result"
    unfolding descriptorIDs_set [OF ids] by blast
next
  assume h: "checkJSONLDContextType vp = None \<and>
    vp_MarshalJSON env vp = Inr vpBits \<and>
    json_Unmarshal env vpBits = Inr typelessVP \<and>
    descriptorIDs (InputDescriptors p) = Inr (present @ missing # others) \<and>
    parseDescriptorMap env vp = Inr descriptorMap \<and>
    Match_loop env p (present @ missing # others) typelessVP (applyOptions options)
      descriptorMap Map.empty = Inr matched \<and>
    set present \<subseteq> dom matched \<and> missing \<notin> dom matched"
  then have "evalSubmissionRequirements_loop (present @ missing # others) matched =
               Some (NoCredentialProvided missing)"
    by (intro evalSubmissionRequirements_loop_first) auto
  with h show "Match env p vp options =
        Inl (Returned (FailedSubmissionRequirements (NoCredentialProvided missing)))"
    by (simp add: Match_unfold [of vp env vpBits typelessVP p "present @ missing # others" descriptorMap])
qed

theorem Match_coverage_witness:
  "Match
     (example_collaborators
        [Some \<lparr>mapping_ID = ''d1'', mapping_Path = ''$.verifiableCredential[0]''\<rparr>,
         Some \<lparr>mapping_ID = ''d2'', mapping_Path = ''$.verifiableCredential[1]''\<rparr>])
     example_definitions
     (example_presentation
        [example_mapping_object ''d1'' ''$.verifiableCredential[0]'',
         example_mapping_object ''d2'' ''$.verifiableCredential[1]''])
     [] =
   Inr [''d1'' \<mapsto> example_credential ''https://example.org/schema/a'' ''CredType1'',
        ''d2'' \<mapsto> example_credential ''https://example.org/schema/b'' ''CredType2''] \<and>
   ID (example_descriptor ''d2'' ''https://example.org/schema/b'') \<in>
     dom [''d1'' \<mapsto> example_credential ''https://example.org/schema/a'' ''CredType1'',
          ''d2'' \<mapsto> example_credential ''https://example.org/schema/b'' ''CredType2''] \<and>
   checkJSONLDContextType
     (example_presentation [example_mapping_object ''d1'' ''$.verifiableCredential[0]'']) = None \<and>
   descriptorIDs (InputDescriptors example_definitions) = Inr ([''d1''] @ ''d2'' # []) \<and>
   Match_loop
     (example_collaborators [Some \<lparr>mapping_ID = ''d1'', mapping_Path = ''$.verifiableCredential[0]''\<rparr>])
     example_definitions ([''d1''] @ ''d2'' # []) example_document (applyOptions [])
     [Some \<lparr>mapping_ID = ''d1'', mapping_Path = ''$.verifiableCredential[0]''\<rparr>] Map.empty =
     Inr [''d1'' \<mapsto> example_credential ''https://example.org/schema/a'' ''CredType1''] \<and>
   Match
     (example_collaborators [Some \<lparr>mapping_ID = ''d1'', mapping_Path = ''$.verifiableCredential[0]''\<rparr>])
     example_definitions
     (example_presentation [example_mapping_object ''d1'' ''$.verifiableCredential[0]''])
     [] =
   Inl (Returned (FailedSubmissionRequirements (NoCredentialProvided ''d2'')))"
proof -
  let ?m1 = "\<lparr>mapping_ID = ''d1'', mapping_Path = ''$.verifiableCredential[0]''\<rparr>"
  let ?env = "example_collaborators [Some ?m1]"
  let ?vp = "example_presentation [example_mapping_object ''d1'' ''$.verifiableCredential[0]'']"
  let ?matched = "[''d1'' \<mapsto> example_credential ''https://example.org/schema/a'' ''CredType1'']"
  have h1: "checkJSONLDContextType ?vp = None" by (simp add: example_defs)
  have h2: "vp_MarshalJSON ?env ?vp = Inr ''VP''" by (simp add: example_defs)
  have h3: "json_Unmarshal ?env ''VP'' = Inr example_document" by (simp add: example_defs)
  have h4: "descriptorIDs (InputDescriptors example_definitions) = Inr ([''d1''] @ ''d2'' # [])"
    by (simp add: example_defs)
  have h5: "parseDescriptorMap ?env ?vp = Inr [Some ?m1]" by (simp add: example_defs)
  have h6: "Match_loop ?env example_definitions ([''d1''] @ ''d2'' # []) example_document
              (applyOptions []) [Some ?m1] Map.empty = Inr ?matched"
    by (simp add: example_defs)
  have h7: "set [''d1''] \<subseteq> dom ?matched \<and> ''d2'' \<notin> dom ?matched" by simp
  from Match_coverage [where env = ?env and p = example_definitions and vp = ?vp and options = "[]"
      and vpBits = "''VP''" and typelessVP = example_document and present = "[''d1'']"
      and missing = "''d2''" and others = "[]" and descriptorMap = "[Some ?m1]" and matched = ?matched]
    h1 h2 h3 h4 h5 h6 h7
  have c2: "Match ?env example_definitions ?vp [] =
              Inl (Returned (FailedSubmissionRequirements (NoCredentialProvided ''d2'')))"
    by blast
  have d2: "Some (example_descriptor ''d2'' ''https://example.org/schema/b'') \<in>
              set (InputDescriptors example_definitions)"
    by (simp add: example_definitions_def)
  from Match_coverage [THEN conjunct1, rule_format, OF example_Match_succeeds d2]
  have c1: "ID (example_descriptor ''d2'' ''https://example.org/schema/b'') \<in>
     dom [''d1'' \<mapsto> example_credential ''https://example.org/schema/a'' ''CredType1'',
          ''d2'' \<mapsto> example_credential ''https://example.org/schema/b'' ''CredType2'']" .
  from example_Match_succeeds c1 h1 h4 h6 c2 show ?thesis by blast
qed

text \<open>
  Claim C2 (schema gate). A credential that \<open>Match\<close> returns under a key shares an
  element of its \<open>Context\<close> with the \<open>Schema.URI\<close> of the input descriptor found for that
  key. If the loop reaches an entry whose credential is selected and parsed and whose
  \<open>Context\<close> shares no element with the \<open>Schema.URI\<close> of its descriptor, \<open>Match\<close> fails
  with "input descriptor id [...] requires schema uri [...] which is not in vc
  context [...]" (the spec's SchemaMismatch), which carries the descriptor id (the id
  of the entry), the schema URIs and the context of the credential.
\<close>

theorem Match_schema_gate:
  "(Match env p vp options = Inr result \<and> result k = Some vc \<longrightarrow>
      (\<exists>d s. inputDescriptor p k = Inr (Some d) \<and> Schema d = Some s \<and>
             set (Context vc) \<inter> set (URI s) \<noteq> {})) \<and>
   (checkJSONLDContextType vp = None \<and>
    vp_MarshalJSON env vp = Inr vpBits \<and>
    json_Unmarshal env vpBits = Inr typelessVP \<and>
    descriptorIDs (InputDescriptors p) = Inr ids \<and>
    parseDescriptorMap env vp = Inr (processed @ Some mapping # later) \<and>
    Match_loop env p ids typelessVP (applyOptions options) processed Map.empty = Inr result0 \<and>
    selectByPath env typelessVP (mapping_Path mapping) (applyOptions options) = Inr vc' \<and>
    inputDescriptor p (mapping_ID mapping) = Inr (Some d') \<and>
    Schema d' = Some s' \<and>
    set (Context vc') \<inter> set (URI s') = {} \<longrightarrow>
      ID d' = mapping_ID mapping \<and>
      Match env p vp options =
        Inl (Returned (SchemaNotInContext (ID d') (URI s') (Context vc'))))"
proof (rule conjI; rule impI)
  assume ok: "Match env p vp options = Inr result \<and> result k = Some vc"
  then have "Match env p vp options = Inr result" ..
  then obtain typelessVP ids descriptorMap where
    "Match_loop env p ids typelessVP (applyOptions options) descriptorMap Map.empty = Inr result"
    by (rule Match_Inr_elim)
  from Match_loop_schema [OF this, of k vc] ok
  show "\<exists>d s. inputDescriptor p k = Inr (Some d) \<and> Schema d = Some s \<and>
             set (Context vc) \<inter> set (URI s) \<noteq> {}"
    by (simp add: stringsIntersect_iff)
next
  assume h: "checkJSONLDContextType vp = None \<and>
    vp_MarshalJSON env vp = Inr vpBits \<and>
    json_Unmarshal env vpBits = Inr typelessVP \<and>
    descriptorIDs (InputDescriptors p) = Inr ids \<and>
    parseDescriptorMap env vp = Inr (processed @ Some mapping # later) \<and>
    Match_loop env p ids typelessVP (applyOptions options) processed Map.empty = Inr result0 \<and>
    selectByPath env typelessVP (mapping_Path mapping) (applyOptions options) = Inr vc' \<and>
    inputDescriptor p (mapping_ID mapping) = Inr (Some d') \<and>
    Schema d' = Some s' \<and>
    set (Context vc') \<inter> set (URI s') = {}"
  then have found: "Some d' \<in> set (InputDescriptors p)" "ID d' = mapping_ID mapping"
    using inputDescriptor_loop_Some [of "InputDescriptors p" "mapping_ID mapping" d']
    by (simp_all add: inputDescriptor_def)
  from h have ids: "descriptorIDs (InputDescriptors p) = Inr ids" by simp
  from found have known: "stringsContain ids (mapping_ID mapping)"
    by (auto simp: stringsContain_iff descriptorIDs_mem [OF ids])
  from h have no: "\<not> stringsIntersect (Context vc') (URI s')"
    by (simp add: stringsIntersect_iff)
  from h known no
  have "Match_loop env p ids typelessVP (applyOptions options) (Some mapping # later) result0 =
          Inl (Returned (SchemaNotInContext (ID d') (URI s') (Context vc')))"
    by simp
  with h have "Match env p vp options =
        Inl (Returned (SchemaNotInContext (ID d') (URI s') (Context vc')))"
    by (intro Match_fails_at_entry [of vp env vpBits typelessVP p ids processed "Some mapping" later options result0]) simp_all
  with found show "ID d' = mapping_ID mapping \<and> Match env p vp options =
        Inl (Returned (SchemaNotInContext (ID d') (URI s') (Context vc')))"
    by simp
qed

theorem Match_schema_gate_witness:
  "[''d1'' \<mapsto> example_credential ''https://example.org/schema/a'' ''CredType1'',
    ''d2'' \<mapsto> example_credential ''https://example.org/schema/b'' ''CredType2''] ''d1'' =
     Some (example_credential ''https://example.org/schema/a'' ''CredType1'') \<and>
   (\<exists>d s. inputDescriptor example_definitions ''d1'' = Inr (Some d) \<and> Schema d = Some s \<and>
      set (Context (example_credential ''https://example.org/schema/a'' ''CredType1'')) \<inter> set (URI s) \<noteq> {}) \<and>
   selectByPath
     (example_collaborators [Some \<lparr>mapping_ID = ''d1'', mapping_Path = ''$.verifiableCredential[1]''\<rparr>])
     example_document ''$.verifiableCredential[1]'' (applyOptions []) =
     Inr (example_credential ''https://example.org/schema/b'' ''CredType2'') \<and>
   inputDescriptor example_definitions ''d1'' =
     Inr (Some (example_descriptor ''d1'' ''https://example.org/schema/a'')) \<and>
   set (Context (example_credential ''https://example.org/schema/b'' ''CredType2'')) \<inter>
     set [''https://example.org/schema/a''] = {} \<and>
   Match
     (example_collaborators [Some \<lparr>mapping_ID = ''d1'', mapping_Path = ''$.verifiableCredential[1]''\<rparr>])
     example_definitions
     (example_presentation [example_mapping_object ''d1'' ''$.verifiableCredential[1]''])
     [] =
   Inl (Returned (SchemaNotInContext ''d1'' [''https://example.org/schema/a'']
          [''https://www.w3.org/2018/credentials/v1'', ''https://example.org/schema/b'']))"
proof -
  let ?m = "\<lparr>mapping_ID = ''d1'', mapping_Path = ''$.verifiableCredential[1]''\<rparr>"
  let ?env = "example_collaborators [Some ?m]"
  let ?vp = "example_presentation [example_mapping_object ''d1'' ''$.verifiableCredential[1]'']"
  let ?credA = "example_credential ''https://example.org/schema/a'' ''CredType1''"
  let ?credB = "example_credential ''https://example.org/schema/b'' ''CredType2''"
  let ?s = "\<lparr>URI = [''https://example.org/schema/a''], Name = '''', Purpose = ''''\<rparr>"
  let ?result = "[''d1'' \<mapsto> ?credA, ''d2'' \<mapsto> ?credB]"
  have k: "?result ''d1'' = Some ?credA" by simp
  from Match_schema_gate [THEN conjunct1, rule_format, OF conjI, OF example_Match_succeeds k]
  have c1: "\<exists>d s. inputDescriptor example_definitions ''d1'' = Inr (Some d) \<and> Schema d = Some s \<and>
      set (Context ?credA) \<inter> set (URI s) \<noteq> {}" .
  have h1: "checkJSONLDContextType ?vp = None" by (simp add: example_defs)
  have h2: "vp_MarshalJSON ?env ?vp = Inr ''VP''" by (simp add: example_defs)
  have h3: "json_Unmarshal ?env ''VP'' = Inr example_document" by (simp add: example_defs)
  have h4: "descriptorIDs (InputDescriptors example_definitions) = Inr [''d1'', ''d2'']"
    by (simp add: example_defs)
  have h5: "parseDescriptorMap ?env ?vp = Inr ([] @ Some ?m # [])" by (simp add: example_defs)
  have h6: "Match_loop ?env example_definitions [''d1'', ''d2''] example_document (applyOptions [])
              [] Map.empty = Inr Map.empty" by simp
  have h7: "selectByPath ?env example_document (mapping_Path ?m) (applyOptions []) = Inr ?credB"
    by (simp add: example_defs)
  have h8: "inputDescriptor example_definitions (mapping_ID ?m) =
              Inr (Some (example_descriptor ''d1'' ''https://example.org/schema/a''))"
    by (simp add: example_defs)
  have h9: "Schema (example_descriptor ''d1'' ''https://example.org/schema/a'') = Some ?s"
    by (simp add: example_defs)
  have h10: "set (Context ?credB) \<inter> set (URI ?s) = {}" by (simp add: example_defs)
  from Match_schema_gate [THEN conjunct2, rule_format, where env = ?env and p = example_definitions
      and vp = ?vp and options = "[]" and vpBits = "''VP''" and typelessVP = example_document
      and ids = "[''d1'', ''d2'']" and processed = "[]" and mapping = ?m and later = "[]"
      and ?result0.0 = Map.empty and vc' = ?credB
      and d' = "example_descriptor ''d1'' ''https://example.org/schema/a''" and s' = ?s]
    h1 h2 h3 h4 h5 h6 h7 h8 h9 h10
  have c2: "Match ?env example_definitions ?vp [] =
     Inl (Returned (SchemaNotInContext (ID (example_descriptor ''d1'' ''https://example.org/schema/a''))
            (URI ?s) (Context ?credB)))"
    by blast
  from k c1 h7 h8 h10 c2 show ?thesis by (simp add: example_descriptor_def example_credential_def)
qed

text \<open>
  Claim C3 (envelope check). If the context of the presentation lacks
  \<open>PresentationSubmissionJSONLDContext\<close> or its type lacks
  \<open>PresentationSubmissionJSONLDType\<close>, \<open>Match\<close> returns the error of
  \<open>checkJSONLDContextType\<close> (the spec's NotASubmission) and no result, whatever the
  definition, the options and the code outside the package do: nothing else has run.
\<close>

theorem Match_envelope_check:
  assumes "PresentationSubmissionJSONLDContext \<notin> set (vp_Context vp) \<or>
           PresentationSubmissionJSONLDType \<notin> set (vp_Type vp)"
  shows "Match env p vp options =
           Inl (Returned (if PresentationSubmissionJSONLDContext \<notin> set (vp_Context vp)
                          then MissingJSONLDContext PresentationSubmissionJSONLDContext
                          else MissingJSONLDType PresentationSubmissionJSONLDType))"
  using assms by (auto simp: Match_def checkJSONLDContextType_def stringsContain_iff)

theorem Match_envelope_check_witness:
  "PresentationSubmissionJSONLDContext \<in> set (vp_Context ((example_presentation [])\<lparr>vp_Type := [''VerifiablePresentation'']\<rparr>)) \<and>
   PresentationSubmissionJSONLDType \<notin> set (vp_Type ((example_presentation [])\<lparr>vp_Type := [''VerifiablePresentation'']\<rparr>)) \<and>
   Match (example_collaborators []) example_definitions
     ((example_presentation [])\<lparr>vp_Type := [''VerifiablePresentation'']\<rparr>) [] =
     Inl (Returned (MissingJSONLDType PresentationSubmissionJSONLDType))"
proof -
  let ?vp = "(example_presentation [])\<lparr>vp_Type := [''VerifiablePresentation'']\<rparr>"
  have t: "PresentationSubmissionJSONLDType \<notin> set (vp_Type ?vp)"
    by (simp add: example_presentation_def PresentationSubmissionJSONLDType_def)
  then have h: "PresentationSubmissionJSONLDContext \<notin> set (vp_Context ?vp) \<or>
           PresentationSubmissionJSONLDType \<notin> set (vp_Type ?vp)" ..
  have c: "PresentationSubmissionJSONLDContext \<in> set (vp_Context ?vp)"
    by (simp add: example_presentation_def)
  from Match_envelope_check [OF h, of "example_collaborators []" example_definitions "[]"] t c
  show ?thesis by simp
qed

text \<open>
  Claim C4 (unknown descriptor id). If the loop reaches an entry whose id is the id of
  no input descriptor of the definition, \<open>Match\<close> fails with "an descriptor_map ID was
  found that did not match the `id` property of any input descriptor: ..." (the spec's
  UnknownDescriptorID), naming that id, whatever the later entries \<open>later\<close> are.
\<close>

theorem Match_unknown_descriptor_id:
  assumes "checkJSONLDContextType vp = None"
    and "vp_MarshalJSON env vp = Inr vpBits"
    and "json_Unmarshal env vpBits = Inr typelessVP"
    and "descriptorIDs (InputDescriptors p) = Inr ids"
    and "parseDescriptorMap env vp = Inr (processed @ Some mapping # later)"
    and "Match_loop env p ids typelessVP (applyOptions options) processed Map.empty = Inr result0"
    and "\<forall>d. Some d \<in> set (InputDescriptors p) \<longrightarrow> ID d \<noteq> mapping_ID mapping"
  shows "Match env p vp options =
           Inl (Returned (UnmatchedDescriptorMapID descriptorMapProperty (mapping_ID mapping)))"
proof -
  from assms(7) have "\<not> stringsContain ids (mapping_ID mapping)"
    by (auto simp: stringsContain_iff descriptorIDs_mem [OF assms(4)])
  then have "Match_loop env p ids typelessVP (applyOptions options) (Some mapping # later) result0 =
          Inl (Returned (UnmatchedDescriptorMapID descriptorMapProperty (mapping_ID mapping)))"
    by simp
  with assms(1-6) show ?thesis by (rule Match_fails_at_entry)
qed

theorem Match_unknown_descriptor_id_witness:
  "(\<nexists>d. Some d \<in> set (InputDescriptors example_definitions) \<and> ID d = ''dX'') \<and>
   Match
     (example_collaborators
        [Some \<lparr>mapping_ID = ''dX'', mapping_Path = ''$.verifiableCredential[0]''\<rparr>,
         Some \<lparr>mapping_ID = ''d1'', mapping_Path = ''$.verifiableCredential[0]''\<rparr>])
     example_definitions
     (example_presentation
        [example_mapping_object ''dX'' ''$.verifiableCredential[0]'',
         example_mapping_object ''d1'' ''$.verifiableCredential[0]''])
     [] =
   Inl (Returned (UnmatchedDescriptorMapID ''descriptor_map'' ''dX''))"
proof -
  let ?mX = "\<lparr>mapping_ID = ''dX'', mapping_Path = ''$.verifiableCredential[0]''\<rparr>"
  let ?m1 = "\<lparr>mapping_ID = ''d1'', mapping_Path = ''$.verifiableCredential[0]''\<rparr>"
  let ?env = "example_collaborators [Some ?mX, Some ?m1]"
  let ?vp = "example_presentation
        [example_mapping_object ''dX'' ''$.verifiableCredential[0]'',
         example_mapping_object ''d1'' ''$.verifiableCredential[0]'']"
  have h1: "checkJSONLDContextType ?vp = None" by (simp add: example_defs)
  have h2: "vp_MarshalJSON ?env ?vp = Inr ''VP''" by (simp add: example_defs)
  have h3: "json_Unmarshal ?env ''VP'' = Inr example_document" by (simp add: example_defs)
  have h4: "descriptorIDs (InputDescriptors example_definitions) = Inr [''d1'', ''d2'']"
    by (simp add: example_defs)
  have h5: "parseDescriptorMap ?env ?vp = Inr ([] @ Some ?mX # [Some ?m1])" by (simp add: example_defs)
  have h6: "Match_loop ?env example_definitions [''d1'', ''d2''] example_document (applyOptions [])
              [] Map.empty = Inr Map.empty" by simp
  have h7: "\<forall>d. Some d \<in> set (InputDescriptors example_definitions) \<longrightarrow> ID d \<noteq> mapping_ID ?mX"
    by (auto simp: example_defs)
  from h7 have n: "\<nexists>d. Some d \<in> set (InputDescriptors example_definitions) \<and> ID d = ''dX''"
    by simp
  from Match_unknown_descriptor_id [OF h1 h2 h3 h4 h5 h6 h7] n
  show ?thesis by (simp add: descriptorMapProperty_def)
qed

text \<open>
  Claim C5 (malformed submission), amended. Between the envelope check and
  \<open>parseDescriptorMap\<close>, \<open>Match\<close> marshals the presentation, unmarshals the bytes and
  collects the descriptor ids; a failure there is returned first. When the
  presentation passes the envelope check, its JSON round trip succeeds and no input
  descriptor is nil, \<open>Match\<close> fails with "failed to parse descriptor map: missing
  '...' on verifiable presentation" (the spec's MalformedSubmission): for
  \<open>presentation_submission\<close> if the custom fields have no JSON object under that name,
  for \<open>descriptor_map\<close> if that object has no JSON array under that name.
\<close>

theorem Match_malformed_submission:
  assumes "checkJSONLDContextType vp = None"
    and "vp_MarshalJSON env vp = Inr vpBits"
    and "json_Unmarshal env vpBits = Inr typelessVP"
    and "None \<notin> set (InputDescriptors p)"
  shows "((\<nexists>submission. vp_CustomFields vp submissionProperty = Some (UMap submission)) \<longrightarrow>
            Match env p vp options =
              Inl (Returned (FailedToParseDescriptorMap (MissingOnPresentation submissionProperty)))) \<and>
         (\<forall>submission. vp_CustomFields vp submissionProperty = Some (UMap submission) \<and>
            (\<nexists>descriptorMap. map_of submission descriptorMapProperty = Some (USlice descriptorMap)) \<longrightarrow>
            Match env p vp options =
              Inl (Returned (FailedToParseDescriptorMap (MissingOnPresentation descriptorMapProperty))))"
proof (intro conjI allI impI)
  assume "\<nexists>submission. vp_CustomFields vp submissionProperty = Some (UMap submission)"
  then have "parseDescriptorMap env vp = Inl (MissingOnPresentation submissionProperty)"
    by (auto simp: parseDescriptorMap_def split: option.splits untyped.splits)
  with assms show "Match env p vp options =
      Inl (Returned (FailedToParseDescriptorMap (MissingOnPresentation submissionProperty)))"
    by (simp add: Match_def descriptorIDs_total)
next
  fix submission
  assume "vp_CustomFields vp submissionProperty = Some (UMap submission) \<and>
     (\<nexists>descriptorMap. map_of submission descriptorMapProperty = Some (USlice descriptorMap))"
  then have "parseDescriptorMap env vp = Inl (MissingOnPresentation descriptorMapProperty)"
    by (auto simp: parseDescriptorMap_def split: option.splits untyped.splits)
  with assms show "Match env p vp options =
      Inl (Returned (FailedToParseDescriptorMap (MissingOnPresentation descriptorMapProperty)))"
    by (simp add: Match_def descriptorIDs_total)
qed

theorem Match_malformed_submission_witness:
  "checkJSONLDContextType ((example_presentation [])\<lparr>vp_CustomFields := Map.empty\<rparr>) = None \<and>
   None \<notin> set (InputDescriptors example_definitions) \<and>
   (\<nexists>submission. vp_CustomFields ((example_presentation [])\<lparr>vp_CustomFields := Map.empty\<rparr>)
       submissionProperty = Some (UMap submission)) \<and>
   Match (example_collaborators []) example_definitions
     ((example_presentation [])\<lparr>vp_CustomFields := Map.empty\<rparr>) [] =
     Inl (Returned (FailedToParseDescriptorMap (MissingOnPresentation ''presentation_submission''))) \<and>
   checkJSONLDContextType
     ((example_presentation [])\<lparr>vp_CustomFields := [submissionProperty \<mapsto> UMap [(''descriptor_map'', UString ''none'')]]\<rparr>) = None \<and>
   (\<nexists>descriptorMap. map_of [(''descriptor_map'', UString ''none'')] descriptorMapProperty =
       Some (USlice descriptorMap)) \<and>
   Match (example_collaborators []) example_definitions
     ((example_presentation [])\<lparr>vp_CustomFields := [submissionProperty \<mapsto> UMap [(''descriptor_map'', UString ''none'')]]\<rparr>) [] =
     Inl (Returned (FailedToParseDescriptorMap (MissingOnPresentation ''descriptor_map'')))"
proof -
  let ?env = "example_collaborators []"
  let ?vp1 = "(example_presentation [])\<lparr>vp_CustomFields := Map.empty\<rparr>"
  let ?sub = "[(''descriptor_map'', UString ''none'')]"
  let ?vp2 = "(example_presentation [])\<lparr>vp_CustomFields := [submissionProperty \<mapsto> UMap ?sub]\<rparr>"
  have n: "None \<notin> set (InputDescriptors example_definitions)" by (simp add: example_defs)
  have u: "json_Unmarshal ?env ''VP'' = Inr example_document" by (simp add: example_defs)
  have a1: "checkJSONLDContextType ?vp1 = None" by (simp add: example_defs)
  have a2: "vp_MarshalJSON ?env ?vp1 = Inr ''VP''" by (simp add: example_defs)
  have a3: "\<nexists>submission. vp_CustomFields ?vp1 submissionProperty = Some (UMap submission)"
    by simp
  from Match_malformed_submission [OF a1 a2 u n, of "[]", THEN conjunct1] a3
  have c1: "Match ?env example_definitions ?vp1 [] =
     Inl (Returned (FailedToParseDescriptorMap (MissingOnPresentation submissionProperty)))"
    by blast
  have b1: "checkJSONLDContextType ?vp2 = None" by (simp add: example_defs)
  have b2: "vp_MarshalJSON ?env ?vp2 = Inr ''VP''" by (simp add: example_defs)
  have b3: "vp_CustomFields ?vp2 submissionProperty = Some (UMap ?sub)" by simp
  have b4: "\<nexists>descriptorMap. map_of ?sub descriptorMapProperty = Some (USlice descriptorMap)"
    by (simp add: descriptorMapProperty_def)
  from Match_malformed_submission [OF b1 b2 u n, of "[]", THEN conjunct2, rule_format, of ?sub] b3 b4
  have c2: "Match ?env example_definitions ?vp2 [] =
     Inl (Returned (FailedToParseDescriptorMap (MissingOnPresentation descriptorMapProperty)))"
    by blast
  from a1 n a3 c1 b1 b4 c2 show ?thesis
    by (simp add: submissionProperty_def descriptorMapProperty_def)
qed

text \<open>
  Claim C5 as stated fails: this presentation passes the envelope check and has no
  \<open>presentation_submission\<close>, but \<open>vp.MarshalJSON\<close> fails on it, and \<open>Match\<close> returns
  "failed to marshal vp: ..." (lines 119 to 122), not the error of
  \<open>parseDescriptorMap\<close>.
\<close>

theorem Match_malformed_submission_counterexample:
  "checkJSONLDContextType ((example_presentation [])\<lparr>vp_CustomFields := Map.empty\<rparr>) = None \<and>
   vp_CustomFields ((example_presentation [])\<lparr>vp_CustomFields := Map.empty\<rparr>) submissionProperty = None \<and>
   Match ((example_collaborators [])\<lparr>vp_MarshalJSON := example_marshal_failure\<rparr>)
     example_definitions ((example_presentation [])\<lparr>vp_CustomFields := Map.empty\<rparr>) [] =
     Inl (Returned (FailedToMarshalVP (External ''json: unsupported type'')))"
  by (simp add: example_defs example_marshal_failure_def)



text \<open>
  Claim C7 (first accept wins). When the base credential parses, the producers before
  \<open>pr\<close> all reject it and \<open>pr\<close> accepts it, the outcome of \<open>CreateCustomCredential\<close> is
  that of \<open>Apply\<close> of \<open>pr\<close>: its value, or \<open>ExtensionApplyFailed\<close> with its error. The
  producers after \<open>pr\<close> play no part, and the base credential is not returned. In the
  instance below the failing producer precedes one that accepts as well.
\<close>

theorem CreateCustomCredential_first_accept_wins:
  assumes "parse vcData = Inr vcBase"
    and "\<forall>q \<in> set rejecting. \<not> Accept q vcBase"
    and "Accept pr vcBase"
  shows "CreateCustomCredential parse vcData (rejecting @ pr # later) =
           (case Apply pr vcBase vcData of
              Inl err \<Rightarrow> Inl (ExtensionApplyFailed err)
            | Inr customCred \<Rightarrow> Inr (CustomCredential customCred))"
  using assms by (simp add: CreateCustomCredential_def CreateCustomCredential_loop_skip)

theorem CreateCustomCredential_first_accept_wins_witness:
  "example_parse ''B'' = Inr (example_credential ''https://example.org/schema/b'' ''CredType2'') \<and>
   \<not> Accept (Cred1_producer example_unmarshal_Cred1)
       (example_credential ''https://example.org/schema/b'' ''CredType2'') \<and>
   Accept FailingCredentialProducer (example_credential ''https://example.org/schema/b'' ''CredType2'') \<and>
   Accept (Cred2Producer example_unmarshal_Cred2)
     (example_credential ''https://example.org/schema/b'' ''CredType2'') \<and>
   CreateCustomCredential example_parse ''B''
     ([Cred1_producer example_unmarshal_Cred1] @ FailingCredentialProducer #
      [Cred2Producer example_unmarshal_Cred2]) =
     Inl (ExtensionApplyFailed ''failed to apply credential extension'')"
proof -
  let ?vc = "example_credential ''https://example.org/schema/b'' ''CredType2''"
  have h1: "example_parse ''B'' = Inr ?vc" by (simp add: example_producer_defs)
  have h2: "\<forall>q \<in> set [Cred1_producer example_unmarshal_Cred1]. \<not> Accept q ?vc"
    by (simp add: example_producer_defs)
  have h3: "Accept FailingCredentialProducer ?vc" by (simp add: example_producer_defs)
  have h4: "Accept (Cred2Producer example_unmarshal_Cred2) ?vc" by (simp add: example_producer_defs)
  from CreateCustomCredential_first_accept_wins [where parse = example_parse and vcData = "''B''"
      and vcBase = ?vc and rejecting = "[Cred1_producer example_unmarshal_Cred1]"
      and pr = FailingCredentialProducer and later = "[Cred2Producer example_unmarshal_Cred2]"]
    h1 h2 h3 h4
  show ?thesis by (simp add: FailingCredentialProducer_def)
qed

text \<open>
  Claim C8 (fallback). When the base credential parses and no producer accepts it,
  \<open>CreateCustomCredential\<close> returns the base credential, as \<open>BaseCredential\<close> and not
  as a value of a producer, without error.
\<close>

theorem CreateCustomCredential_fallback:
  assumes "parse vcData = Inr vcBase"
    and "\<forall>q \<in> set producers. \<not> Accept q vcBase"
  shows "CreateCustomCredential parse vcData producers = Inr (BaseCredential vcBase)"
  using assms CreateCustomCredential_loop_skip [of producers vcBase "[]" vcData]
  by (simp add: CreateCustomCredential_def)

theorem CreateCustomCredential_fallback_witness:
  "example_parse ''C'' =
     Inr (example_credential ''https://example.org/schema/c'' ''UniversityDegreeCredential'') \<and>
   \<not> Accept (Cred1_producer example_unmarshal_Cred1)
       (example_credential ''https://example.org/schema/c'' ''UniversityDegreeCredential'') \<and>
   \<not> Accept (Cred2Producer example_unmarshal_Cred2)
       (example_credential ''https://example.org/schema/c'' ''UniversityDegreeCredential'') \<and>
   CreateCustomCredential example_parse ''C''
     [Cred1_producer example_unmarshal_Cred1, Cred2Producer example_unmarshal_Cred2] =
     Inr (BaseCredential
            (example_credential ''https://example.org/schema/c'' ''UniversityDegreeCredential''))"
proof -
  let ?vc = "example_credential ''https://example.org/schema/c'' ''UniversityDegreeCredential''"
  have h1: "example_parse ''C'' = Inr ?vc" by (simp add: example_producer_defs)
  have h2: "\<forall>q \<in> set [Cred1_producer example_unmarshal_Cred1, Cred2Producer example_unmarshal_Cred2].
              \<not> Accept q ?vc"
    by (simp add: example_producer_defs)
  from CreateCustomCredential_fallback [where parse = example_parse and vcData = "''C''"
      and vcBase = ?vc
      and producers = "[Cred1_producer example_unmarshal_Cred1, Cred2Producer example_unmarshal_Cred2]"]
    h1 h2
  show ?thesis by simp
qed

text \<open>
  Claim C9 (nil schema). If the loop reaches an entry whose path selects a credential
  that parses, and the input descriptor found for the id of the entry has no
  \<open>Schema\<close> (a nil pointer), \<open>Match\<close> neither returns a result nor an error: evaluating
  \<open>inputDescriptor.Schema.URI\<close> panics with a nil pointer dereference.
\<close>

theorem Match_nil_schema_panics:
  assumes "checkJSONLDContextType vp = None"
    and "vp_MarshalJSON env vp = Inr vpBits"
    and "json_Unmarshal env vpBits = Inr typelessVP"
    and "descriptorIDs (InputDescriptors p) = Inr ids"
    and "parseDescriptorMap env vp = Inr (processed @ Some mapping # later)"
    and "Match_loop env p ids typelessVP (applyOptions options) processed Map.empty = Inr result0"
    and "selectByPath env typelessVP (mapping_Path mapping) (applyOptions options) = Inr vc"
    and "inputDescriptor p (mapping_ID mapping) = Inr (Some d)"
    and "Schema d = None"
  shows "Match env p vp options = Inl NilPointerDereference"
proof -
  from assms(8) have "Some d \<in> set (InputDescriptors p)" "ID d = mapping_ID mapping"
    using inputDescriptor_loop_Some [of "InputDescriptors p" "mapping_ID mapping" d]
    by (simp_all add: inputDescriptor_def)
  then have "stringsContain ids (mapping_ID mapping)"
    by (auto simp: stringsContain_iff descriptorIDs_mem [OF assms(4)])
  with assms(7-9)
  have "Match_loop env p ids typelessVP (applyOptions options) (Some mapping # later) result0 =
          Inl NilPointerDereference"
    by simp
  with assms(1-6) show ?thesis by (rule Match_fails_at_entry)
qed

theorem Match_nil_schema_panics_witness:
  "inputDescriptor
     \<lparr>pd_Name = ''example'', pd_Purpose = ''example'',
      InputDescriptors = [Some \<lparr>ID = ''d1'', Schema = None, Constraints = None\<rparr>]\<rparr> ''d1'' =
     Inr (Some \<lparr>ID = ''d1'', Schema = None, Constraints = None\<rparr>) \<and>
   selectByPath
     (example_collaborators [Some \<lparr>mapping_ID = ''d1'', mapping_Path = ''$.verifiableCredential[0]''\<rparr>])
     example_document ''$.verifiableCredential[0]'' (applyOptions []) =
     Inr (example_credential ''https://example.org/schema/a'' ''CredType1'') \<and>
   Match
     (example_collaborators [Some \<lparr>mapping_ID = ''d1'', mapping_Path = ''$.verifiableCredential[0]''\<rparr>])
     \<lparr>pd_Name = ''example'', pd_Purpose = ''example'',
      InputDescriptors = [Some \<lparr>ID = ''d1'', Schema = None, Constraints = None\<rparr>]\<rparr>
     (example_presentation [example_mapping_object ''d1'' ''$.verifiableCredential[0]''])
     [] =
   Inl NilPointerDereference"
proof -
  let ?m = "\<lparr>mapping_ID = ''d1'', mapping_Path = ''$.verifiableCredential[0]''\<rparr>"
  let ?env = "example_collaborators [Some ?m]"
  let ?d = "\<lparr>ID = ''d1'', Schema = None, Constraints = None\<rparr>"
  let ?p = "\<lparr>pd_Name = ''example'', pd_Purpose = ''example'', InputDescriptors = [Some ?d]\<rparr>"
  let ?vp = "example_presentation [example_mapping_object ''d1'' ''$.verifiableCredential[0]'']"
  have h1: "checkJSONLDContextType ?vp = None" by (simp add: example_defs)
  have h2: "vp_MarshalJSON ?env ?vp = Inr ''VP''" by (simp add: example_defs)
  have h3: "json_Unmarshal ?env ''VP'' = Inr example_document" by (simp add: example_defs)
  have h4: "descriptorIDs (InputDescriptors ?p) = Inr [''d1'']" by simp
  have h5: "parseDescriptorMap ?env ?vp = Inr ([] @ Some ?m # [])" by (simp add: example_defs)
  have h6: "Match_loop ?env ?p [''d1''] example_document (applyOptions []) [] Map.empty = Inr Map.empty"
    by simp
  have h7: "selectByPath ?env example_document (mapping_Path ?m) (applyOptions []) =
              Inr (example_credential ''https://example.org/schema/a'' ''CredType1'')"
    by (simp add: example_defs)
  have h8: "inputDescriptor ?p (mapping_ID ?m) = Inr (Some ?d)" by (simp add: inputDescriptor_def)
  have h9: "Schema ?d = None" by simp
  from Match_nil_schema_panics [OF h1 h2 h3 h4 h5 h6 h7 h8 h9] h7 h8
  show ?thesis by simp
qed

text \<open>
  Claim C10 (exact keys). If \<open>Match\<close> returns a result mapping without error, the keys
  of the mapping are exactly the ids of the input descriptors of the definition.
\<close>

theorem Match_keys_exact:
  assumes "Match env p vp options = Inr result"
  shows "dom result = {ID d |d. Some d \<in> set (InputDescriptors p)}"
proof -
  from assms obtain typelessVP ids descriptorMap where
    ids: "descriptorIDs (InputDescriptors p) = Inr ids"
    and loop: "Match_loop env p ids typelessVP (applyOptions options) descriptorMap Map.empty = Inr result"
    and cov: "evalSubmissionRequirements_loop ids result = None"
    by (rule Match_Inr_elim)
  from Match_loop_dom [OF loop] have "dom result \<subseteq> set ids" by auto
  moreover from cov have "set ids \<subseteq> dom result"
    by (simp add: evalSubmissionRequirements_loop_None)
  ultimately show ?thesis unfolding descriptorIDs_set [OF ids] by blast
qed

theorem Match_keys_exact_witness:
  "Match
     (example_collaborators
        [Some \<lparr>mapping_ID = ''d1'', mapping_Path = ''$.verifiableCredential[0]''\<rparr>,
         Some \<lparr>mapping_ID = ''d2'', mapping_Path = ''$.verifiableCredential[1]''\<rparr>])
     example_definitions
     (example_presentation
        [example_mapping_object ''d1'' ''$.verifiableCredential[0]'',
         example_mapping_object ''d2'' ''$.verifiableCredential[1]''])
     [] =
   Inr [''d1'' \<mapsto> example_credential ''https://example.org/schema/a'' ''CredType1'',
        ''d2'' \<mapsto> example_credential ''https://example.org/schema/b'' ''CredType2''] \<and>
   dom [''d1'' \<mapsto> example_credential ''https://example.org/schema/a'' ''CredType1'',
        ''d2'' \<mapsto> example_credential ''https://example.org/schema/b'' ''CredType2''] =
     {ID d |d. Some d \<in> set (InputDescriptors example_definitions)}"
  using Match_keys_exact [OF example_Match_succeeds] example_Match_succeeds by simp

end
